theory Spec2Isabelle
  imports Main "HOL-Library.Sublist"
begin

section \<open>JavaScript values used by the aggregator\<close>

subsection \<open>Strings\<close>

text \<open>
  A JavaScript string is modelled as the list of its code units, for code units below 256
  (ASCII and Latin-1).  On such strings \<open>String.prototype.toLowerCase\<close> maps the
  letters A-Z and the capital letters U+00C0..U+00DE (without the multiplication sign
  U+00D7) to the code unit 32 higher, and the white space of \<open>\s\<close> and of
  \<open>String.prototype.trim\<close> is TAB, LF, VT, FF, CR, SPACE and NBSP.
\<close>

definition upper_chars :: string where
  "upper_chars = ''ABCDEFGHIJKLMNOPQRSTUVWXYZ'' @
     [CHR 0xC0, CHR 0xC1, CHR 0xC2, CHR 0xC3, CHR 0xC4, CHR 0xC5, CHR 0xC6, CHR 0xC7,
      CHR 0xC8, CHR 0xC9, CHR 0xCA, CHR 0xCB, CHR 0xCC, CHR 0xCD, CHR 0xCE, CHR 0xCF,
      CHR 0xD0, CHR 0xD1, CHR 0xD2, CHR 0xD3, CHR 0xD4, CHR 0xD5, CHR 0xD6,
      CHR 0xD8, CHR 0xD9, CHR 0xDA, CHR 0xDB, CHR 0xDC, CHR 0xDD, CHR 0xDE]"

definition lower_chars :: string where
  "lower_chars = ''abcdefghijklmnopqrstuvwxyz'' @
     [CHR 0xE0, CHR 0xE1, CHR 0xE2, CHR 0xE3, CHR 0xE4, CHR 0xE5, CHR 0xE6, CHR 0xE7,
      CHR 0xE8, CHR 0xE9, CHR 0xEA, CHR 0xEB, CHR 0xEC, CHR 0xED, CHR 0xEE, CHR 0xEF,
      CHR 0xF0, CHR 0xF1, CHR 0xF2, CHR 0xF3, CHR 0xF4, CHR 0xF5, CHR 0xF6,
      CHR 0xF8, CHR 0xF9, CHR 0xFA, CHR 0xFB, CHR 0xFC, CHR 0xFD, CHR 0xFE]"

definition lower_char :: "char \<Rightarrow> char" where
  "lower_char c = (case map_of (zip upper_chars lower_chars) c of Some d \<Rightarrow> d | None \<Rightarrow> c)"

definition toLowerCase :: "string \<Rightarrow> string" where
  "toLowerCase s = map lower_char s"

definition is_space :: "char \<Rightarrow> bool" where
  "is_space c = (c \<in> set [CHR 0x09, CHR 0x0A, CHR 0x0B, CHR 0x0C, CHR 0x0D, CHR 0x20, CHR 0xA0])"

definition trim :: "string \<Rightarrow> string" where
  "trim s = rev (dropWhile is_space (rev (dropWhile is_space s)))"

text \<open>\<open>s.startsWith(p)\<close> and \<open>s.includes(w)\<close>.\<close>

fun startsWith :: "string \<Rightarrow> string \<Rightarrow> bool" where
  "startsWith s [] = True"
| "startsWith [] (p # ps) = False"
| "startsWith (c # cs) (p # ps) = (c = p \<and> startsWith cs ps)"

fun str_includes :: "string \<Rightarrow> string \<Rightarrow> bool" where
  "str_includes [] w = (w = [])"
| "str_includes (c # cs) w = (startsWith (c # cs) w \<or> str_includes cs w)"

text \<open>
  \<open>s.split(/\s+/)\<close>: the pieces of \<open>s\<close> between the maximal runs of white
  space.  A run at the start or at the end of \<open>s\<close> leaves an empty piece before or
  after it, and the empty string splits into one empty piece.
\<close>

function split_ws :: "string \<Rightarrow> string list" where
  "split_ws s =
     (let w = takeWhile (\<lambda>c. \<not> is_space c) s;
          r = dropWhile (\<lambda>c. \<not> is_space c) s
      in if r = [] then [w] else w # split_ws (dropWhile is_space r))"
  by pat_completeness auto
termination
proof (relation "measure length")
  show "wf (measure length)" by simp
next
  fix s :: string and w r :: string
  assume r: "r = dropWhile (\<lambda>c. \<not> is_space c) s" and ne: "r \<noteq> []"
  from ne obtain c cs where rc: "r = c # cs" by (cases r) auto
  have "dropWhile (\<lambda>c. \<not> is_space c) s \<noteq> []" using r ne by simp
  then have "\<not> \<not> is_space (hd (dropWhile (\<lambda>c. \<not> is_space c) s))" by (rule hd_dropWhile)
  then have "is_space (hd r)" unfolding r by simp
  then have "is_space c" unfolding rc by simp
  then have "dropWhile is_space r = dropWhile is_space cs" using rc by simp
  then have "length (dropWhile is_space r) \<le> length cs"
    by (simp add: length_dropWhile_le)
  moreover have "length r \<le> length s" using r by (simp add: length_dropWhile_le)
  ultimately show "(dropWhile is_space r, s) \<in> measure length" using rc by simp
qed

declare split_ws.simps [simp del]

subsection \<open>Dates\<close>

text \<open>
  A \<open>Date\<close> object holds a time value: an integral number of milliseconds since the
  epoch, or NaN for an Invalid Date (what \<open>new Date(s)\<close> gives for a string it cannot
  parse).
\<close>

datatype jsdate = Valid int | Invalid

text \<open>\<open>a - b\<close> on two dates: the difference of the time values, NaN (\<open>None\<close>) when
  one of them is invalid.\<close>

fun date_minus :: "jsdate \<Rightarrow> jsdate \<Rightarrow> int option" where
  "date_minus (Valid s) (Valid t) = Some (s - t)"
| "date_minus _ _ = None"

subsection \<open>Arrays\<close>

text \<open>\<open>xs.slice(start, stop)\<close>: a negative index counts from the end, and both are
  clamped to the array.\<close>

definition slice :: "'a list \<Rightarrow> int \<Rightarrow> int \<Rightarrow> 'a list" where
  "slice xs start stop =
     (let len = int (length xs);
          k = (if start < 0 then max (len + start) 0 else min start len);
          final = (if stop < 0 then max (len + stop) 0 else min stop len)
      in take (nat (final - k)) (drop (nat k) xs))"

text \<open>
  \<open>xs.sort(comparefn)\<close>.  The comparison function returns a number, \<open>None\<close> standing
  for NaN, which the sort reads as 0.  The sort is stable: an element is placed before
  another only when they were in that order already or the comparison asks for it.
  For a consistent comparison function this fixes the result; here it is computed by
  insertion from the right.  A comparison function that answers NaN for some pairs and
  orders others need not be consistent, and the order is then the engine's to choose;
  insertion leaves an array as it is when no element compares above its right neighbour,
  as the run detection of V8's sort does.
\<close>

definition SortCompare :: "('a \<Rightarrow> 'a \<Rightarrow> int option) \<Rightarrow> 'a \<Rightarrow> 'a \<Rightarrow> int" where
  "SortCompare comparefn x y = (case comparefn x y of None \<Rightarrow> 0 | Some v \<Rightarrow> v)"

fun sort_insert :: "('a \<Rightarrow> 'a \<Rightarrow> int option) \<Rightarrow> 'a \<Rightarrow> 'a list \<Rightarrow> 'a list" where
  "sort_insert comparefn x [] = [x]"
| "sort_insert comparefn x (y # ys) =
     (if SortCompare comparefn x y \<le> 0 then x # y # ys
      else y # sort_insert comparefn x ys)"

definition js_sort :: "('a \<Rightarrow> 'a \<Rightarrow> int option) \<Rightarrow> 'a list \<Rightarrow> 'a list" where
  "js_sort comparefn xs = foldr (sort_insert comparefn) xs []"

section \<open>The aggregator\<close>

record article =
  title :: string
  url :: string
  snippet :: string
  content :: string
  imageUrl :: "string option"
  source :: string
  category :: string
  article_keywords :: "string list"
  pubDate :: jsdate
  fetchedAt :: jsdate

text \<open>An entry of \<open>feeds.json\<close>: \<open>url\<close>, \<open>source\<close>, \<open>category\<close>, \<open>keywords\<close>.\<close>

record feedConfig =
  feed_url :: string
  feed_source :: string
  feed_category :: string
  feed_keywords :: "string list"

text \<open>The fields of \<open>RSSAggregator\<close>; \<open>lastUpdate\<close> is \<open>null\<close> until the first refresh.\<close>

record aggregator =
  articles :: "article list"
  feeds :: "feedConfig list"
  lastUpdate :: "jsdate option"

section \<open>Search\<close>

text \<open>
  The score of one article, as the body of the \<open>map\<close> in \<open>search\<close> computes it: each
  \<open>forEach\<close> is a fold over the query words that carries the running score.
  \<open>now\<close> is \<open>Date.now()\<close>.  The age in days is a quotient of an integer by
  86400000; it is below 1 (below 7) exactly when the integer is below 86400000 (7 times
  that), which is how the model compares it.
\<close>

definition ms_per_day :: int where
  "ms_per_day = 1000 * 60 * 60 * 24"

definition recency :: "int \<Rightarrow> jsdate \<Rightarrow> int" where
  "recency now d =
     (case date_minus (Valid now) d of
        None \<Rightarrow> 0
      | Some age \<Rightarrow> if age < 1 * ms_per_day then 2 else if age < 7 * ms_per_day then 1 else 0)"

definition score :: "int \<Rightarrow> string \<Rightarrow> string list \<Rightarrow> article \<Rightarrow> int" where
  "score now queryLower queryWords a =
     (let titleLower = toLowerCase (title a);
          s1 = fold (\<lambda>word s. if str_includes titleLower word then s + 10 else s) queryWords 0;
          snippetLower = toLowerCase (snippet a);
          s2 = fold (\<lambda>word s. if str_includes snippetLower word then s + 5 else s) queryWords s1;
          s3 = fold (\<lambda>keyword s.
                  fold (\<lambda>word s'.
                     if str_includes (toLowerCase keyword) word \<or> str_includes word (toLowerCase keyword)
                     then s' + 3 else s') queryWords s)
                 (article_keywords a) s2;
          s4 = (if str_includes (toLowerCase (category a)) queryLower then s3 + 7 else s3)
      in s4 + recency now (pubDate a))"

text \<open>The scored, filtered and sorted array of \<open>search\<close>, before the page is cut out.
  \<open>limit\<close> and \<open>offset\<close> are numbers that the caller passes (20 and 0 when it passes
  none); the HTTP layer passes whatever integers the request holds.\<close>

definition ranked :: "aggregator \<Rightarrow> int \<Rightarrow> string \<Rightarrow> (article \<times> int) list" where
  "ranked this now query =
     (let queryLower = toLowerCase query;
          queryWords = split_ws queryLower;
          scoredArticles = map (\<lambda>a. (a, score now queryLower queryWords a)) (articles this)
      in js_sort (\<lambda>a b. Some (snd b - snd a)) (filter (\<lambda>item. snd item > 0) scoredArticles))"

definition search :: "aggregator \<Rightarrow> int \<Rightarrow> string \<Rightarrow> int \<Rightarrow> int \<Rightarrow> article list" where
  "search this now query limit offset =
     (if query = [] \<or> trim query = [] then slice (articles this) 0 limit
      else map fst (slice (ranked this now query) offset (offset + limit)))"

section \<open>Feed entries\<close>

text \<open>
  What \<open>rss-parser\<close> hands over for one entry of a feed.  A field that is
  \<open>undefined\<close> is \<open>None\<close>.  A \<open>media:content\<close> or \<open>media:thumbnail\<close> element is an
  object whose XML attributes sit under \<open>$\<close>; the code also reads \<open>url\<close> and
  \<open>medium\<close> on the object itself, and takes \<open>media:content\<close> as one object or as an
  array of objects, an element of which may be \<open>null\<close>.
\<close>

record xml_attrs =
  attr_url :: "string option"
  attr_medium :: "string option"

record media =
  dollar :: "xml_attrs option"
  media_url :: "string option"
  media_medium :: "string option"

datatype media_field = Single media | Multiple "media option list"

record enclosure =
  enc_url :: "string option"
  enc_type :: "string option"

record item =
  item_title :: "string option"
  item_link :: "string option"
  item_guid :: "string option"
  item_contentSnippet :: "string option"
  item_description :: "string option"
  item_content :: "string option"
  item_pubDate :: "string option"
  media_content :: "media_field option"
  media_thumbnail :: "media option"
  item_enclosure :: "enclosure option"

text \<open>Truthiness of a string that may be \<open>undefined\<close>, \<open>a || b\<close>, and \<open>a || ''\<close>.\<close>

definition truthy :: "string option \<Rightarrow> bool" where
  "truthy v = (case v of None \<Rightarrow> False | Some t \<Rightarrow> t \<noteq> [])"

definition or_else :: "string option \<Rightarrow> string option \<Rightarrow> string option" where
  "or_else a b = (if truthy a then a else b)"


subsection \<open>Image extraction\<close>






text \<open>The \<open>for\<close> loop over the \<open>media:content\<close> entries; \<open>Some u\<close> is \<open>return u\<close>.\<close>

definition entry_url :: "media option \<Rightarrow> string option" where
  "entry_url m =
     (case m of
        None \<Rightarrow> None
      | Some e \<Rightarrow> or_else (case dollar e of None \<Rightarrow> None | Some d \<Rightarrow> attr_url d) (media_url e))"

definition entry_medium :: "media option \<Rightarrow> string option" where
  "entry_medium m =
     (case m of
        None \<Rightarrow> None
      | Some e \<Rightarrow> (case dollar e of Some d \<Rightarrow> attr_medium d | None \<Rightarrow> media_medium e))"

fun media_loop :: "media option list \<Rightarrow> string option" where
  "media_loop [] = None"
| "media_loop (m # ms) =
     (if truthy (entry_url m) \<and> (\<not> truthy (entry_medium m) \<or> entry_medium m = Some ''image'')
      then entry_url m else media_loop ms)"


subsection \<open>Snippets\<close>




section \<open>Refresh\<close>

subsection \<open>Deduplication\<close>

text \<open>The callback of \<open>filter\<close> in \<open>removeDuplicates\<close> with its \<open>Set\<close> of urls seen.\<close>

fun filter_seen :: "string set \<Rightarrow> article list \<Rightarrow> article list" where
  "filter_seen seen [] = []"
| "filter_seen seen (a # as) =
     (if url a \<in> seen then filter_seen seen as
      else a # filter_seen (insert (url a) seen) as)"

definition removeDuplicates :: "article list \<Rightarrow> article list" where
  "removeDuplicates as = filter_seen {} as"

subsection \<open>Fetching all feeds\<close>









section \<open>Persistence\<close>










section \<open>Search on the store\<close>

text \<open>
  \<open>search\<close> once more, with the arrays as objects of a store: \<open>this.articles\<close> is a
  reference, \<open>map\<close>, \<open>filter\<close> and \<open>slice\<close> allocate a new array, and \<open>sort\<close> sorts
  the array it is called on in place and returns it.  The store keeps the arrays of
  articles and the arrays of scored articles apart; \<open>next_ref\<close> is the first reference
  not yet in use.  The function returns the reference of the result, the aggregator
  object and the store afterwards.
\<close>

record heap =
  article_arrays :: "nat \<Rightarrow> article list option"
  scored_arrays :: "nat \<Rightarrow> (article \<times> int) list option"
  next_ref :: nat

record aggregator_obj =
  articles_ref :: nat
  feeds_val :: "feedConfig list"
  lastUpdate_val :: "jsdate option"

definition get_articles :: "heap \<Rightarrow> nat \<Rightarrow> article list" where
  "get_articles h r = (case article_arrays h r of Some xs \<Rightarrow> xs | None \<Rightarrow> [])"

definition get_scored :: "heap \<Rightarrow> nat \<Rightarrow> (article \<times> int) list" where
  "get_scored h r = (case scored_arrays h r of Some xs \<Rightarrow> xs | None \<Rightarrow> [])"

definition new_articles :: "heap \<Rightarrow> article list \<Rightarrow> nat \<times> heap" where
  "new_articles h xs =
     (next_ref h, h\<lparr>article_arrays := (article_arrays h)(next_ref h \<mapsto> xs),
                     next_ref := Suc (next_ref h)\<rparr>)"

definition new_scored :: "heap \<Rightarrow> (article \<times> int) list \<Rightarrow> nat \<times> heap" where
  "new_scored h xs =
     (next_ref h, h\<lparr>scored_arrays := (scored_arrays h)(next_ref h \<mapsto> xs),
                     next_ref := Suc (next_ref h)\<rparr>)"

definition sort_in_place :: "heap \<Rightarrow> nat \<Rightarrow> ((article \<times> int) \<Rightarrow> (article \<times> int) \<Rightarrow> int option) \<Rightarrow> nat \<times> heap" where
  "sort_in_place h r comparefn =
     (r, h\<lparr>scored_arrays := (scored_arrays h)(r \<mapsto> js_sort comparefn (get_scored h r))\<rparr>)"

definition search_heap ::
  "heap \<Rightarrow> aggregator_obj \<Rightarrow> int \<Rightarrow> string \<Rightarrow> int \<Rightarrow> int \<Rightarrow> nat \<times> aggregator_obj \<times> heap" where
  "search_heap h this now query limit offset =
     (if query = [] \<or> trim query = [] then
        (case new_articles h (slice (get_articles h (articles_ref this)) 0 limit) of
           (r, h1) \<Rightarrow> (r, this, h1))
      else
        (let queryLower = toLowerCase query;
             queryWords = split_ws queryLower
         in case new_scored h
                   (map (\<lambda>a. (a, score now queryLower queryWords a))
                      (get_articles h (articles_ref this))) of
              (scoredArticles, h1) \<Rightarrow>
          (case new_scored h1 (filter (\<lambda>item. snd item > 0) (get_scored h1 scoredArticles)) of
              (filtered, h2) \<Rightarrow>
          (case sort_in_place h2 filtered (\<lambda>a b. Some (snd b - snd a)) of
              (ordered, h3) \<Rightarrow>
          (case new_scored h3 (slice (get_scored h3 ordered) offset (offset + limit)) of
              (page, h4) \<Rightarrow>
          (case new_articles h4 (map fst (get_scored h4 page)) of
              (results, h5) \<Rightarrow> (results, this, h5)))))))"

definition value_of :: "heap \<Rightarrow> aggregator_obj \<Rightarrow> aggregator" where
  "value_of h this =
     \<lparr>articles = get_articles h (articles_ref this), feeds = feeds_val this,
      lastUpdate = lastUpdate_val this\<rparr>"

section \<open>Notions used in the statements\<close>

subsection \<open>Notions used to state the properties of a refresh\<close>





subsection \<open>Notions used to state the priority of the image sources\<close>






subsection \<open>Notions used to state the score\<close>





section \<open>Example data\<close>

definition mk_article :: "string \<Rightarrow> string \<Rightarrow> string \<Rightarrow> string list \<Rightarrow> jsdate \<Rightarrow> article" where
  "mk_article t u c ks d =
     \<lparr>title = t, url = u, snippet = [], content = [], imageUrl = None, source = ''feed'',
      category = c, article_keywords = ks, pubDate = d, fetchedAt = d\<rparr>"

definition art_a :: article where
  "art_a = mk_article ''Alpha'' ''http://x/a'' ''news'' [] (Valid 3000)"

definition art_b :: article where
  "art_b = mk_article ''Beta'' ''http://x/b'' ''news'' [] (Valid 2000)"

definition art_c :: article where
  "art_c = mk_article ''Gamma'' ''http://x/c'' ''news'' [] (Valid 1000)"

definition agg_abc :: aggregator where
  "agg_abc = \<lparr>articles = [art_a, art_b, art_c], feeds = [], lastUpdate = None\<rparr>"

























definition heap_abc :: heap where
  "heap_abc = \<lparr>article_arrays = [0 \<mapsto> [art_a, art_b, art_c]], scored_arrays = Map.empty, next_ref = 1\<rparr>"

definition obj_abc :: aggregator_obj where
  "obj_abc = \<lparr>articles_ref = 0, feeds_val = [], lastUpdate_val = None\<rparr>"

section \<open>Properties of search\<close>

lemma slice_nonneg:
  "0 \<le> start \<Longrightarrow> 0 \<le> n \<Longrightarrow> slice xs start (start + n) = take (nat n) (drop (nat start) xs)"
  by (auto simp: slice_def Let_def min_def)

lemma all_dropWhile: "(\<forall>x \<in> set (dropWhile P q). P x) \<longleftrightarrow> (\<forall>x \<in> set q. P x)"
  by (induction q) auto

lemma trim_empty_iff: "trim q = [] \<longleftrightarrow> (\<forall>c \<in> set q. is_space c)"
  by (simp add: trim_def all_dropWhile)

lemma art_distinct: "art_a \<noteq> art_b" "art_b \<noteq> art_c" "art_a \<noteq> art_c"
  by (simp_all add: art_a_def art_b_def art_c_def mk_article_def)

subsection \<open>Empty and white-space queries\<close>

text \<open>What the first branch of \<open>search\<close> returns: the first \<open>limit\<close> articles, whatever
  the offset.\<close>

lemma search_blank:
  "\<forall>c \<in> set q. is_space c \<Longrightarrow> 0 \<le> limit \<Longrightarrow>
   search this now q limit offset = take (nat limit) (articles this)"
  by (auto simp: search_def trim_empty_iff slice_def min_def Let_def)

text \<open>
  C1.  An empty or white-space query is to return the articles of the collection from
  index \<open>offset\<close> on, at most \<open>limit\<close> of them.  On the collection of three articles
  with the empty query, limit 1 and offset 1, \<open>search\<close> returns the first article, where
  the article at index 1 is the second: the branch for the empty query passes 0 and
  \<open>limit\<close> to \<open>slice\<close> and never reads \<open>offset\<close>, which the branch for other queries
  does.
\<close>

theorem search_blank_offset_ignored:
  "search agg_abc 5000 [] 1 1 = [art_a]
   \<and> take 1 (drop 1 (articles agg_abc)) = [art_b]
   \<and> search agg_abc 5000 [] 1 1 \<noteq> take 1 (drop 1 (articles agg_abc))"
  by (simp add: search_def slice_def agg_abc_def art_distinct)

subsection \<open>Pagination\<close>

lemma take_take_drop:
  "take n (drop k xs) @ take n (drop (k + n) xs) = take (2 * n) (drop k xs)"
proof -
  have "take (n + n) (drop k xs) = take n (drop k xs) @ take n (drop n (drop k xs))"
    by (simp add: take_add)
  then show ?thesis by (simp add: add.commute mult_2)
qed

text \<open>For a query that is not blank, two consecutive pages are one page of twice the
  length.\<close>

lemma search_pages:
  assumes "\<not> (\<forall>c \<in> set q. is_space c)" "0 \<le> limit" "0 \<le> offset"
  shows "search this now q limit offset @ search this now q limit (offset + limit)
         = map fst (slice (ranked this now q) offset (offset + 2 * limit))"
proof -
  let ?r = "ranked this now q"
  have q: "\<not> (q = [] \<or> trim q = [])" using assms(1) by (auto simp: trim_empty_iff)
  have a: "slice ?r offset (offset + limit) = take (nat limit) (drop (nat offset) ?r)"
    using assms by (rule_tac slice_nonneg) auto
  have b: "slice ?r (offset + limit) (offset + limit + limit)
           = take (nat limit) (drop (nat offset + nat limit) ?r)"
    using assms slice_nonneg [of "offset + limit" limit ?r] by (simp add: nat_add_distrib)
  have c: "slice ?r offset (offset + 2 * limit) = take (2 * nat limit) (drop (nat offset) ?r)"
    using assms slice_nonneg [of offset "2 * limit" ?r] by (simp add: nat_mult_distrib)
  have "search this now q limit offset = map fst (take (nat limit) (drop (nat offset) ?r))"
    using q a by (simp only: search_def if_False)
  moreover have "search this now q limit (offset + limit)
                 = map fst (take (nat limit) (drop (nat offset + nat limit) ?r))"
    using q b by (simp only: search_def if_False)
  ultimately show ?thesis
    by (simp only: c take_take_drop flip: map_append)
qed

text \<open>
  C4.  The pages \<open>search(q, L, O)\<close> and \<open>search(q, L, O + L)\<close> are to make up, one
  after the other, the results from index \<open>O\<close> on, at most \<open>2L\<close> of them, for every
  query.  For the query of one space, whose results are the collection itself, the pages
  of length 1 at offsets 0 and 1 are both the first article, where the first two results
  are the first and the second article.
\<close>

theorem search_blank_pages_overlap:
  "search agg_abc 5000 '' '' 1 0 @ search agg_abc 5000 '' '' 1 (0 + 1) = [art_a, art_a]
   \<and> slice (articles agg_abc) 0 (0 + 2 * 1) = [art_a, art_b]"
  by (simp add: search_def slice_def agg_abc_def trim_def is_space_def)

section \<open>Properties of a refresh\<close>

subsection \<open>Deduplication\<close>

lemma filter_seen_find:
  "find (\<lambda>a. url a = u) (filter_seen seen xs) = (if u \<in> seen then None else find (\<lambda>a. url a = u) xs)"
  by (induction xs arbitrary: seen) auto

lemma filter_seen_urls: "set (map url (filter_seen seen xs)) = set (map url xs) - seen"
  by (induction xs arbitrary: seen) auto

lemma filter_seen_fresh: "a \<in> set (filter_seen seen xs) \<Longrightarrow> url a \<notin> seen"
  by (induction xs arbitrary: seen) (auto split: if_splits)

lemma filter_seen_distinct: "distinct (map url (filter_seen seen xs))"
  by (induction xs arbitrary: seen) (auto dest: filter_seen_fresh)

lemma filter_seen_subseq: "subseq (filter_seen seen xs) xs"
  by (induction xs arbitrary: seen) auto

text \<open>
  C5.  Deduplication keeps exactly one article for every url of the candidate list, the
  first one with that url in candidate order: no url occurs twice in the result, the
  urls of the result are those of the candidates, the result is the candidate list with
  articles left out (the order is kept), and looking up any url finds the same article
  in the result as in the candidates, that is the first with that url.  Only the url is
  compared, so a later article with the same url is dropped whatever its source.
\<close>

theorem removeDuplicates_first_per_url:
  "distinct (map url (removeDuplicates xs))
   \<and> set (map url (removeDuplicates xs)) = set (map url xs)
   \<and> subseq (removeDuplicates xs) xs
   \<and> find (\<lambda>a. url a = u) (removeDuplicates xs) = find (\<lambda>a. url a = u) xs"
  by (simp add: removeDuplicates_def filter_seen_distinct filter_seen_subseq filter_seen_find filter_seen_urls del: set_map)

subsection \<open>Sorting, failures\<close>


















subsection \<open>Runs of a refresh\<close>






section \<open>Properties of the score\<close>


















section \<open>Properties of image extraction\<close>


lemma media_loop_truthy: "media_loop ms = Some u \<Longrightarrow> u \<noteq> []"
  by (induction ms) (auto simp: truthy_def split: if_splits option.splits)





section \<open>Properties of the cache\<close>






section \<open>Search does not write to the aggregator\<close>

lemma search_heap_result:
  "case search_heap h this now q limit offset of
     (r, this', h') \<Rightarrow> get_articles h' r = search (value_of h this) now q limit offset"
  by (simp add: search_heap_def search_def ranked_def value_of_def Let_def new_articles_def
      new_scored_def sort_in_place_def get_articles_def get_scored_def)

text \<open>
  C10.  A call of \<open>search\<close> leaves the aggregator as it was: the object is the same,
  the array that \<open>this.articles\<close> refers to, \<open>this.feeds\<close> and \<open>this.lastUpdate\<close> hold
  what they held, and so does every array that existed before the call; the arrays that
  \<open>search\<close> writes to, the one it sorts included, are its own.  The array it returns
  holds what \<open>search\<close> on the collection as a value gives.
\<close>

theorem search_leaves_state:
  assumes "articles_ref this < next_ref h"
  shows "case search_heap h this now q limit offset of
     (r, this', h') \<Rightarrow>
        this' = this
        \<and> value_of h' this' = value_of h this
        \<and> (\<forall>k. k < next_ref h \<longrightarrow>
              article_arrays h' k = article_arrays h k \<and> scored_arrays h' k = scored_arrays h k)
        \<and> get_articles h' r = search (value_of h this) now q limit offset"
  using assms
  by (simp add: search_heap_def search_def ranked_def value_of_def Let_def new_articles_def
      new_scored_def sort_in_place_def get_articles_def get_scored_def)

theorem search_leaves_state_witness:
  "articles_ref obj_abc < next_ref heap_abc
   \<and> fst (snd (search_heap heap_abc obj_abc 5000 ''alpha'' 20 0)) = obj_abc
   \<and> value_of (snd (snd (search_heap heap_abc obj_abc 5000 ''alpha'' 20 0))) obj_abc
       = value_of heap_abc obj_abc
   \<and> articles (value_of heap_abc obj_abc) = [art_a, art_b, art_c]"
proof -
  let ?s = "search_heap heap_abc obj_abc 5000 ''alpha'' 20 0"
  have h: "articles_ref obj_abc < next_ref heap_abc" by (simp add: obj_abc_def heap_abc_def)
  have c: "articles (value_of heap_abc obj_abc) = [art_a, art_b, art_c]"
    by (simp add: value_of_def get_articles_def heap_abc_def obj_abc_def)
  from search_leaves_state [OF h, of 5000 "''alpha''" 20 0]
  have a: "fst (snd ?s) = obj_abc"
    and b: "value_of (snd (snd ?s)) (fst (snd ?s)) = value_of heap_abc obj_abc"
    unfolding split_def by blast+
  from b have b': "value_of (snd (snd ?s)) obj_abc = value_of heap_abc obj_abc"
    unfolding a .
  show ?thesis using h a b' c by (intro conjI)
qed


end
